theory Spec2Isabelle
  imports Complex_Main
begin

section \<open>Pose landmarks and the per-frame classifier (client/src/lib/exercises.ts)\<close>

text \<open>
  A landmark is one estimated body point. The coordinates and the visibility are
  JavaScript numbers; they are taken here as real numbers, the values the landmark
  source delivers (positions in the unit square, visibility between 0 and 1), so
  rounding and NaN are outside this development.
\<close>

record Landmark =
  x :: real
  y :: real
  z :: real
  visibility :: real

datatype JumpingJackState = Up | Down | Transition | Unknown

text \<open>The table \<open>LANDMARKS\<close> of MediaPipe indices.\<close>

definition LEFT_SHOULDER :: nat where "LEFT_SHOULDER = 11"
definition RIGHT_SHOULDER :: nat where "RIGHT_SHOULDER = 12"
definition LEFT_WRIST :: nat where "LEFT_WRIST = 15"
definition RIGHT_WRIST :: nat where "RIGHT_WRIST = 16"
definition LEFT_HIP :: nat where "LEFT_HIP = 23"
definition RIGHT_HIP :: nat where "RIGHT_HIP = 24"
definition LEFT_ANKLE :: nat where "LEFT_ANKLE = 27"
definition RIGHT_ANKLE :: nat where "RIGHT_ANKLE = 28"

text \<open>The table \<open>THRESHOLDS\<close>.\<close>

definition ARMS_UP_MARGIN :: real where "ARMS_UP_MARGIN = 0.2"
definition FEET_SPREAD_RATIO :: real where "FEET_SPREAD_RATIO = 2.0"
definition MIN_VISIBILITY :: real where "MIN_VISIBILITY = 0.3"
definition STATE_CHANGE_DEBOUNCE_MS :: int where "STATE_CHANGE_DEBOUNCE_MS = 500"

text \<open>
  \<open>getLandmark\<close>: \<open>pose[index]\<close> is \<open>undefined\<close> past the end of the array, which
  \<open>!landmark\<close> turns into \<open>null\<close>; so does a visibility below the minimum.
\<close>

definition getLandmark :: "Landmark list \<Rightarrow> nat \<Rightarrow> Landmark option" where
  "getLandmark pose index =
     (if index < length pose then
        (let landmark = pose ! index
         in if visibility landmark < MIN_VISIBILITY then None else Some landmark)
      else None)"

definition areArmsUp :: "Landmark list \<Rightarrow> bool option" where
  "areArmsUp pose =
     (case getLandmark pose LEFT_SHOULDER of None \<Rightarrow> None | Some leftShoulder \<Rightarrow>
     (case getLandmark pose RIGHT_SHOULDER of None \<Rightarrow> None | Some rightShoulder \<Rightarrow>
     (case getLandmark pose LEFT_WRIST of None \<Rightarrow> None | Some leftWrist \<Rightarrow>
     (case getLandmark pose RIGHT_WRIST of None \<Rightarrow> None | Some rightWrist \<Rightarrow>
        (let leftArmUp = (y leftWrist < y leftShoulder - ARMS_UP_MARGIN);
             rightArmUp = (y rightWrist < y rightShoulder - ARMS_UP_MARGIN)
         in Some (leftArmUp \<and> rightArmUp))))))"

definition areFeetApart :: "Landmark list \<Rightarrow> bool option" where
  "areFeetApart pose =
     (case getLandmark pose LEFT_HIP of None \<Rightarrow> None | Some leftHip \<Rightarrow>
     (case getLandmark pose RIGHT_HIP of None \<Rightarrow> None | Some rightHip \<Rightarrow>
     (case getLandmark pose LEFT_ANKLE of None \<Rightarrow> None | Some leftAnkle \<Rightarrow>
     (case getLandmark pose RIGHT_ANKLE of None \<Rightarrow> None | Some rightAnkle \<Rightarrow>
        (let hipWidth = \<bar>x rightHip - x leftHip\<bar>;
             ankleSpread = \<bar>x rightAnkle - x leftAnkle\<bar>
         in Some (ankleSpread > hipWidth * FEET_SPREAD_RATIO))))))"

definition detectJumpingJackPosition :: "Landmark list \<Rightarrow> JumpingJackState" where
  "detectJumpingJackPosition pose =
     (if length pose < 33 then Unknown
      else
        (let armsUp = areArmsUp pose; feetApart = areFeetApart pose
         in case armsUp of
              None \<Rightarrow> Unknown
            | Some a \<Rightarrow>
                (case feetApart of
                   None \<Rightarrow> (if a then Up else Down)
                 | Some f \<Rightarrow>
                     if a \<and> f then Up
                     else if \<not> a \<and> \<not> f then Down
                     else Transition)))"

section \<open>The rep detector (createJumpingJackDetector)\<close>

text \<open>
  The debounced detector, with \<open>THRESHOLDS.STATE_CHANGE_DEBOUNCE_MS\<close>. Its state is the
  four variables the closure holds. \<open>processFrame\<close> reads \<open>Date.now()\<close> at most once, for a
  changed and known state; the reading is the argument \<open>now\<close>, in milliseconds.
\<close>

record JumpingJackDetector =
  reps :: nat
  currentState :: JumpingJackState
  hasReachedUp :: bool
  lastStateChangeTime :: int

definition createJumpingJackDetector :: JumpingJackDetector where
  "createJumpingJackDetector =
     \<lparr>reps = 0, currentState = Unknown, hasReachedUp = False, lastStateChangeTime = 0\<rparr>"

definition processFrame :: "JumpingJackDetector \<Rightarrow> int \<Rightarrow> Landmark list \<Rightarrow> JumpingJackDetector" where
  "processFrame d now pose =
     (let newState = detectJumpingJackPosition pose
      in if newState = Unknown then d
         else if newState = currentState d then d
         else if now - lastStateChangeTime d < STATE_CHANGE_DEBOUNCE_MS then d
         else
           (let d1 = (if newState = Up then d\<lparr>hasReachedUp := True\<rparr> else d);
                d2 = (if newState = Down \<and> hasReachedUp d1
                      then d1\<lparr>reps := reps d1 + 1, hasReachedUp := False\<rparr>
                      else d1)
            in d2\<lparr>currentState := newState, lastStateChangeTime := now\<rparr>))"

definition getReps :: "JumpingJackDetector \<Rightarrow> nat" where
  "getReps d = reps d"

definition getState :: "JumpingJackDetector \<Rightarrow> JumpingJackState" where
  "getState d = currentState d"

definition reset :: "JumpingJackDetector \<Rightarrow> JumpingJackDetector" where
  "reset d = d\<lparr>reps := 0, currentState := Unknown, hasReachedUp := False,
               lastStateChangeTime := 0\<rparr>"

text \<open>A sequence of frames, each with the clock reading at which it is processed.\<close>

fun processFrames :: "JumpingJackDetector \<Rightarrow> (int \<times> Landmark list) list \<Rightarrow> JumpingJackDetector" where
  "processFrames d [] = d"
| "processFrames d ((now, pose) # frames) = processFrames (processFrame d now pose) frames"

section \<open>The exercise session (WebcamFeed.processFrame, App.tsx, useStore.ts)\<close>

text \<open>
  The frame callback of the webcam component owns one detector and drives the store's
  counter \<open>currentReps\<close>. Modelled is what it does once video, canvas and landmarker
  are ready: \<open>detectPose\<close> delivers a pose or \<open>null\<close> (the frame \<open>None\<close>), and a call of
  \<open>onExerciseComplete(exercise, reps)\<close> is returned as a completion event. Drawing and
  the debug display do not touch the detector or the counter and are left out.
\<close>

record CompletionEvent =
  exerciseKind :: string
  repsCompleted :: nat

record Session =
  detector :: JumpingJackDetector
  currentReps :: nat

definition TARGET_REPS :: nat where "TARGET_REPS = 20"

definition initialSession :: Session where
  "initialSession = \<lparr>detector = createJumpingJackDetector, currentReps = 0\<rparr>"

definition incrementReps :: "Session \<Rightarrow> Session" where
  "incrementReps s = s\<lparr>currentReps := currentReps s + 1\<rparr>"

definition resetReps :: "Session \<Rightarrow> Session" where
  "resetReps s = s\<lparr>currentReps := 0\<rparr>"

definition webcamProcessFrame ::
  "nat \<Rightarrow> Session \<Rightarrow> int \<Rightarrow> Landmark list option \<Rightarrow> CompletionEvent option \<times> Session" where
  "webcamProcessFrame targetReps s now frame =
     (case frame of
        None \<Rightarrow> (None, s)
      | Some pose \<Rightarrow>
          (let prevReps = getReps (detector s);
               s1 = s\<lparr>detector := processFrame (detector s) now pose\<rparr>;
               newReps = getReps (detector s1)
           in if newReps > prevReps then
                (let s2 = incrementReps s1
                 in if newReps \<ge> targetReps then
                      (Some \<lparr>exerciseKind = ''jumping_jacks'', repsCompleted = newReps\<rparr>,
                       resetReps (s2\<lparr>detector := reset (detector s2)\<rparr>))
                    else (None, s2))
              else (None, s1)))"


section \<open>Poses of the test suite (client/src/lib/exercises.test.ts)\<close>

definition SHOULDER_Y :: real where "SHOULDER_Y = 0.3"
definition WRIST_Y_UP :: real where "WRIST_Y_UP = SHOULDER_Y - ARMS_UP_MARGIN - 0.05"
definition WRIST_Y_DOWN :: real where "WRIST_Y_DOWN = 0.5"
definition ANKLE_X_TOGETHER_LEFT :: real where "ANKLE_X_TOGETHER_LEFT = 0.48"
definition ANKLE_X_TOGETHER_RIGHT :: real where "ANKLE_X_TOGETHER_RIGHT = 0.52"
definition ANKLE_X_APART_LEFT :: real where "ANKLE_X_APART_LEFT = 0.2"
definition ANKLE_X_APART_RIGHT :: real where "ANKLE_X_APART_RIGHT = 0.8"

text \<open>
  \<open>createPose\<close> with the four overrides the tests pass (wrist heights, ankle positions);
  shoulders and hips keep their defaults.
\<close>

definition createPose :: "real \<Rightarrow> real \<Rightarrow> real \<Rightarrow> real \<Rightarrow> Landmark list" where
  "createPose leftWristY rightWristY leftAnkleX rightAnkleX =
     (replicate 33 \<lparr>x = 0.5, y = 0.5, z = 0, visibility = 1\<rparr>)
       [11 := \<lparr>x = 0.4, y = SHOULDER_Y, z = 0, visibility = 1\<rparr>,
        12 := \<lparr>x = 0.6, y = SHOULDER_Y, z = 0, visibility = 1\<rparr>,
        15 := \<lparr>x = 0.3, y = leftWristY, z = 0, visibility = 1\<rparr>,
        16 := \<lparr>x = 0.7, y = rightWristY, z = 0, visibility = 1\<rparr>,
        23 := \<lparr>x = 0.45, y = 0.6, z = 0, visibility = 1\<rparr>,
        24 := \<lparr>x = 0.55, y = 0.6, z = 0, visibility = 1\<rparr>,
        27 := \<lparr>x = leftAnkleX, y = 0.9, z = 0, visibility = 1\<rparr>,
        28 := \<lparr>x = rightAnkleX, y = 0.9, z = 0, visibility = 1\<rparr>]"

definition downPose :: "Landmark list" where
  "downPose = createPose WRIST_Y_DOWN WRIST_Y_DOWN ANKLE_X_TOGETHER_LEFT ANKLE_X_TOGETHER_RIGHT"

definition upPose :: "Landmark list" where
  "upPose = createPose WRIST_Y_UP WRIST_Y_UP ANKLE_X_APART_LEFT ANKLE_X_APART_RIGHT"

text \<open>
  The pose of the test "only feet are apart but arms down", and the same pose with the
  left ankle reported at visibility 0.1.
\<close>

definition feetApartArmsDownPose :: "Landmark list" where
  "feetApartArmsDownPose = createPose WRIST_Y_DOWN WRIST_Y_DOWN ANKLE_X_APART_LEFT ANKLE_X_APART_RIGHT"

definition hiddenAnklePose :: "Landmark list" where
  "hiddenAnklePose =
     feetApartArmsDownPose
       [LEFT_ANKLE := \<lparr>x = ANKLE_X_APART_LEFT, y = 0.9, z = 0, visibility = 0.1\<rparr>]"


section \<open>The balance ledger\<close>

text \<open>
  Modelled from the spec: the ledger is kept by the server, whose code is not part of
  the sources (only the client is); its data and its two operations follow sections 3
  and 4.3 of the specification. A ledger event records one mutation: its kind
  (\<open>earn\<close>, \<open>spend\<close>, \<open>spend_rejected\<close>), magnitude and timestamp.
\<close>

datatype LedgerEventKind = Earn | Spend | SpendRejected

text \<open>Modelled from the spec: one immutable entry of the history.\<close>

record LedgerEvent =
  kind :: LedgerEventKind
  magnitude :: int
  timestamp :: int

text \<open>
  Modelled from the spec: the ledger record, two integer counters and the append-only
  history of events.
\<close>

record Ledger =
  earned :: int
  spent :: int
  history :: "LedgerEvent list"

text \<open>
  Modelled from the spec: the errors of the ledger operations; a rejected spend reports
  the current available balance.
\<close>

datatype LedgerError = InvalidAmount | InsufficientBalance int

text \<open>Modelled from the spec: available balance = earned - spent.\<close>

definition available :: "Ledger \<Rightarrow> int" where
  "available l = earned l - spent l"

text \<open>Modelled from the spec: the ledger is created with earned = spent = 0.\<close>

definition initialLedger :: Ledger where
  "initialLedger = \<lparr>earned = 0, spent = 0, history = []\<rparr>"

text \<open>
  Modelled from the spec: \<open>credit(amount)\<close> rejects a zero or negative amount with
  \<open>InvalidAmount\<close> before any mutation; otherwise it increases \<open>earned\<close>, appends an
  \<open>earn\<close> event and returns the resulting available balance.
\<close>

definition credit :: "Ledger \<Rightarrow> int \<Rightarrow> int \<Rightarrow> (LedgerError + int) \<times> Ledger" where
  "credit l now amount =
     (if amount \<le> 0 then (Inl InvalidAmount, l)
      else
        (let l' = l\<lparr>earned := earned l + amount,
                    history := history l @ [\<lparr>kind = Earn, magnitude = amount, timestamp = now\<rparr>]\<rparr>
         in (Inr (available l'), l')))"

text \<open>
  Modelled from the spec: \<open>spend(amount)\<close> rejects a zero or negative amount with
  \<open>InvalidAmount\<close> before any mutation; it succeeds only if the available balance is at
  least the amount, then increases \<open>spent\<close> and appends a \<open>spend\<close> event; otherwise it
  appends a \<open>spend_rejected\<close> event and reports the current available balance, the
  counters untouched.
\<close>

definition spend :: "Ledger \<Rightarrow> int \<Rightarrow> int \<Rightarrow> (LedgerError + int) \<times> Ledger" where
  "spend l now amount =
     (if amount \<le> 0 then (Inl InvalidAmount, l)
      else if available l \<ge> amount then
        (let l' = l\<lparr>spent := spent l + amount,
                    history := history l @ [\<lparr>kind = Spend, magnitude = amount, timestamp = now\<rparr>]\<rparr>
         in (Inr (available l'), l'))
      else
        (Inl (InsufficientBalance (available l)),
         l\<lparr>history := history l @
                [\<lparr>kind = SpendRejected, magnitude = amount, timestamp = now\<rparr>]\<rparr>))"

text \<open>
  Modelled from the spec: a sequence of credit and spend calls, each with the time at
  which it is served; a failed call leaves the ledger to the next one.
\<close>

datatype LedgerCall = CreditCall int | SpendCall int

text \<open>
  Modelled from the spec: one call served on the ledger; its result goes back to the
  caller, the ledger goes on.
\<close>

fun applyCall :: "Ledger \<Rightarrow> int \<times> LedgerCall \<Rightarrow> Ledger" where
  "applyCall l (now, CreditCall amount) = snd (credit l now amount)"
| "applyCall l (now, SpendCall amount) = snd (spend l now amount)"

text \<open>Modelled from the spec: the calls served one after the other.\<close>

fun applyCalls :: "Ledger \<Rightarrow> (int \<times> LedgerCall) list \<Rightarrow> Ledger" where
  "applyCalls l [] = l"
| "applyCalls l (c # cs) = applyCalls (applyCall l c) cs"

section \<open>The classifier\<close>

lemmas landmark_index_defs = LEFT_SHOULDER_def RIGHT_SHOULDER_def LEFT_WRIST_def RIGHT_WRIST_def
  LEFT_HIP_def RIGHT_HIP_def LEFT_ANKLE_def RIGHT_ANKLE_def

lemmas test_pose_defs = createPose_def SHOULDER_Y_def WRIST_Y_UP_def WRIST_Y_DOWN_def
  ANKLE_X_TOGETHER_LEFT_def ANKLE_X_TOGETHER_RIGHT_def ANKLE_X_APART_LEFT_def
  ANKLE_X_APART_RIGHT_def ARMS_UP_MARGIN_def

lemma getLandmark_visible:
  "index < length pose \<Longrightarrow> MIN_VISIBILITY \<le> visibility (pose ! index) \<Longrightarrow>
   getLandmark pose index = Some (pose ! index)"
  by (simp add: getLandmark_def)

lemma getLandmark_hidden:
  "visibility (pose ! index) < MIN_VISIBILITY \<Longrightarrow> getLandmark pose index = None"
  by (simp add: getLandmark_def)

lemma areArmsUp_visible:
  assumes "33 \<le> length pose"
    and "\<forall>i \<in> {LEFT_SHOULDER, RIGHT_SHOULDER, LEFT_WRIST, RIGHT_WRIST}.
           MIN_VISIBILITY \<le> visibility (pose ! i)"
  shows "areArmsUp pose =
           Some (y (pose ! LEFT_WRIST) < y (pose ! LEFT_SHOULDER) - ARMS_UP_MARGIN \<and>
                 y (pose ! RIGHT_WRIST) < y (pose ! RIGHT_SHOULDER) - ARMS_UP_MARGIN)"
proof -
  have "LEFT_SHOULDER < length pose" "RIGHT_SHOULDER < length pose"
       "LEFT_WRIST < length pose" "RIGHT_WRIST < length pose"
    using assms(1) by (simp_all add: landmark_index_defs)
  then show ?thesis
    using assms(2) by (simp add: areArmsUp_def getLandmark_visible)
qed

lemma areFeetApart_visible:
  assumes "33 \<le> length pose"
    and "\<forall>i \<in> {LEFT_HIP, RIGHT_HIP, LEFT_ANKLE, RIGHT_ANKLE}.
           MIN_VISIBILITY \<le> visibility (pose ! i)"
  shows "areFeetApart pose =
           Some (\<bar>x (pose ! RIGHT_ANKLE) - x (pose ! LEFT_ANKLE)\<bar>
                   > \<bar>x (pose ! RIGHT_HIP) - x (pose ! LEFT_HIP)\<bar> * FEET_SPREAD_RATIO)"
proof -
  have "LEFT_HIP < length pose" "RIGHT_HIP < length pose"
       "LEFT_ANKLE < length pose" "RIGHT_ANKLE < length pose"
    using assms(1) by (simp_all add: landmark_index_defs)
  then show ?thesis
    using assms(2) by (simp add: areFeetApart_def getLandmark_visible)
qed

lemma areFeetApart_hidden:
  assumes "\<exists>i \<in> {LEFT_HIP, RIGHT_HIP, LEFT_ANKLE, RIGHT_ANKLE}.
           visibility (pose ! i) < MIN_VISIBILITY"
  shows "areFeetApart pose = None"
  using assms by (auto simp: areFeetApart_def getLandmark_hidden split: option.splits)

lemma detect_short: "length pose < 33 \<Longrightarrow> detectJumpingJackPosition pose = Unknown"
  by (simp add: detectJumpingJackPosition_def)

lemma detect_downPose: "detectJumpingJackPosition downPose = Down"
  by (simp add: detectJumpingJackPosition_def areArmsUp_def areFeetApart_def getLandmark_def
      downPose_def test_pose_defs landmark_index_defs MIN_VISIBILITY_def FEET_SPREAD_RATIO_def)

lemma detect_upPose: "detectJumpingJackPosition upPose = Up"
  by (simp add: detectJumpingJackPosition_def areArmsUp_def areFeetApart_def getLandmark_def
      upPose_def test_pose_defs landmark_index_defs MIN_VISIBILITY_def FEET_SPREAD_RATIO_def)

lemma detect_feetApartArmsDownPose: "detectJumpingJackPosition feetApartArmsDownPose = Transition"
  by (simp add: detectJumpingJackPosition_def areArmsUp_def areFeetApart_def getLandmark_def
      feetApartArmsDownPose_def test_pose_defs landmark_index_defs MIN_VISIBILITY_def
      FEET_SPREAD_RATIO_def)

text \<open>
  C5. In full-body mode (at least 33 landmarks, the eight required ones at or above the
  minimum visibility) the classifier answers \<open>Up\<close> exactly when both wrists are above
  their shoulders by more than the margin and the ankle spread exceeds the hip width
  times the ratio, \<open>Down\<close> exactly when both of these fail, and \<open>Transition\<close> exactly
  when one holds and the other fails.
\<close>

theorem detect_full_body:
  assumes "33 \<le> length pose"
    and "\<forall>i \<in> {LEFT_SHOULDER, RIGHT_SHOULDER, LEFT_WRIST, RIGHT_WRIST,
                 LEFT_HIP, RIGHT_HIP, LEFT_ANKLE, RIGHT_ANKLE}.
           MIN_VISIBILITY \<le> visibility (pose ! i)"
  shows "let wristsAbove = (y (pose ! LEFT_WRIST) < y (pose ! LEFT_SHOULDER) - ARMS_UP_MARGIN \<and>
                            y (pose ! RIGHT_WRIST) < y (pose ! RIGHT_SHOULDER) - ARMS_UP_MARGIN);
             anklesWide = (\<bar>x (pose ! RIGHT_ANKLE) - x (pose ! LEFT_ANKLE)\<bar>
                             > \<bar>x (pose ! RIGHT_HIP) - x (pose ! LEFT_HIP)\<bar> * FEET_SPREAD_RATIO)
         in (detectJumpingJackPosition pose = Up \<longleftrightarrow> wristsAbove \<and> anklesWide) \<and>
            (detectJumpingJackPosition pose = Down \<longleftrightarrow> \<not> wristsAbove \<and> \<not> anklesWide) \<and>
            (detectJumpingJackPosition pose = Transition \<longleftrightarrow>
               \<not> (wristsAbove \<and> anklesWide) \<and> \<not> (\<not> wristsAbove \<and> \<not> anklesWide))"
proof -
  have a: "areArmsUp pose =
           Some (y (pose ! LEFT_WRIST) < y (pose ! LEFT_SHOULDER) - ARMS_UP_MARGIN \<and>
                 y (pose ! RIGHT_WRIST) < y (pose ! RIGHT_SHOULDER) - ARMS_UP_MARGIN)"
    using assms by (intro areArmsUp_visible) auto
  have f: "areFeetApart pose =
           Some (\<bar>x (pose ! RIGHT_ANKLE) - x (pose ! LEFT_ANKLE)\<bar>
                   > \<bar>x (pose ! RIGHT_HIP) - x (pose ! LEFT_HIP)\<bar> * FEET_SPREAD_RATIO)"
    using assms by (intro areFeetApart_visible) auto
  show ?thesis
    using assms(1) by (auto simp: detectJumpingJackPosition_def a f Let_def)
qed

theorem detect_full_body_witness:
  "33 \<le> length upPose \<and>
   MIN_VISIBILITY \<le> visibility (upPose ! LEFT_SHOULDER) \<and>
   MIN_VISIBILITY \<le> visibility (upPose ! RIGHT_SHOULDER) \<and>
   MIN_VISIBILITY \<le> visibility (upPose ! LEFT_WRIST) \<and>
   MIN_VISIBILITY \<le> visibility (upPose ! RIGHT_WRIST) \<and>
   MIN_VISIBILITY \<le> visibility (upPose ! LEFT_HIP) \<and>
   MIN_VISIBILITY \<le> visibility (upPose ! RIGHT_HIP) \<and>
   MIN_VISIBILITY \<le> visibility (upPose ! LEFT_ANKLE) \<and>
   MIN_VISIBILITY \<le> visibility (upPose ! RIGHT_ANKLE) \<and>
   detectJumpingJackPosition upPose = Up \<and>
   detectJumpingJackPosition upPose \<noteq> Down \<and>
   detectJumpingJackPosition upPose \<noteq> Transition"
proof -
  have h1: "33 \<le> length upPose"
    by (simp add: upPose_def createPose_def)
  have h2: "\<forall>i \<in> {LEFT_SHOULDER, RIGHT_SHOULDER, LEFT_WRIST, RIGHT_WRIST,
                    LEFT_HIP, RIGHT_HIP, LEFT_ANKLE, RIGHT_ANKLE}.
              MIN_VISIBILITY \<le> visibility (upPose ! i)"
    by (simp add: upPose_def createPose_def landmark_index_defs MIN_VISIBILITY_def)
  show ?thesis
    using h1 h2 detect_full_body [OF h1 h2]
    by (simp add: Let_def upPose_def test_pose_defs landmark_index_defs FEET_SPREAD_RATIO_def)
qed

text \<open>
  C10. In upper-body-only mode (at least 33 landmarks, shoulders and wrists at or above
  the minimum visibility, some hip or ankle below it) the classifier answers \<open>Up\<close> when
  both wrists are above their shoulders by more than the margin and \<open>Down\<close> otherwise,
  never \<open>Transition\<close>; the positions of the feet do not enter the answer.
\<close>

theorem detect_upper_body_only:
  assumes "33 \<le> length pose"
    and "\<forall>i \<in> {LEFT_SHOULDER, RIGHT_SHOULDER, LEFT_WRIST, RIGHT_WRIST}.
           MIN_VISIBILITY \<le> visibility (pose ! i)"
    and "\<exists>i \<in> {LEFT_HIP, RIGHT_HIP, LEFT_ANKLE, RIGHT_ANKLE}.
           visibility (pose ! i) < MIN_VISIBILITY"
  shows "detectJumpingJackPosition pose =
           (if y (pose ! LEFT_WRIST) < y (pose ! LEFT_SHOULDER) - ARMS_UP_MARGIN \<and>
               y (pose ! RIGHT_WRIST) < y (pose ! RIGHT_SHOULDER) - ARMS_UP_MARGIN
            then Up else Down) \<and>
         detectJumpingJackPosition pose \<noteq> Transition"
  using assms(1)
  by (simp add: detectJumpingJackPosition_def areArmsUp_visible [OF assms(1,2)]
      areFeetApart_hidden [OF assms(3)])

theorem detect_upper_body_only_witness:
  "33 \<le> length hiddenAnklePose \<and>
   MIN_VISIBILITY \<le> visibility (hiddenAnklePose ! LEFT_SHOULDER) \<and>
   MIN_VISIBILITY \<le> visibility (hiddenAnklePose ! RIGHT_SHOULDER) \<and>
   MIN_VISIBILITY \<le> visibility (hiddenAnklePose ! LEFT_WRIST) \<and>
   MIN_VISIBILITY \<le> visibility (hiddenAnklePose ! RIGHT_WRIST) \<and>
   visibility (hiddenAnklePose ! LEFT_ANKLE) < MIN_VISIBILITY \<and>
   detectJumpingJackPosition hiddenAnklePose = Down \<and>
   detectJumpingJackPosition feetApartArmsDownPose = Transition"
proof -
  have h1: "33 \<le> length hiddenAnklePose"
    by (simp add: hiddenAnklePose_def feetApartArmsDownPose_def createPose_def)
  have h2: "\<forall>i \<in> {LEFT_SHOULDER, RIGHT_SHOULDER, LEFT_WRIST, RIGHT_WRIST}.
              MIN_VISIBILITY \<le> visibility (hiddenAnklePose ! i)"
    by (simp add: hiddenAnklePose_def feetApartArmsDownPose_def createPose_def
        landmark_index_defs MIN_VISIBILITY_def)
  have h: "visibility (hiddenAnklePose ! LEFT_ANKLE) < MIN_VISIBILITY"
    by (simp add: hiddenAnklePose_def feetApartArmsDownPose_def createPose_def
        landmark_index_defs MIN_VISIBILITY_def)
  then have h3: "\<exists>i \<in> {LEFT_HIP, RIGHT_HIP, LEFT_ANKLE, RIGHT_ANKLE}.
              visibility (hiddenAnklePose ! i) < MIN_VISIBILITY"
    by blast
  have w: "\<not> (y (hiddenAnklePose ! LEFT_WRIST) < y (hiddenAnklePose ! LEFT_SHOULDER) - ARMS_UP_MARGIN)"
    by (simp add: hiddenAnklePose_def feetApartArmsDownPose_def test_pose_defs landmark_index_defs)
  show ?thesis
    using h1 h2 h w detect_upper_body_only [OF h1 h2 h3] detect_feetApartArmsDownPose
    by simp
qed

section \<open>The detector\<close>

text \<open>
  C6. A frame classified \<open>Unknown\<close>, or classified as the state the detector already
  reports, leaves the whole detector unchanged: rep count, reported state,
  reached-up flag and time of the last accepted change.
\<close>

theorem ignored_frame_unchanged:
  "detectJumpingJackPosition pose = Unknown \<or>
   detectJumpingJackPosition pose = currentState d \<Longrightarrow>
   processFrame d now pose = d"
  by (auto simp: processFrame_def Let_def)

theorem ignored_frame_unchanged_witness:
  "detectJumpingJackPosition [] = Unknown \<and>
   processFrame createJumpingJackDetector 1000 [] = createJumpingJackDetector \<and>
   detectJumpingJackPosition downPose
     = currentState (processFrame createJumpingJackDetector 1000 downPose) \<and>
   processFrame (processFrame createJumpingJackDetector 1000 downPose) 2000 downPose
     = processFrame createJumpingJackDetector 1000 downPose"
proof -
  have u: "detectJumpingJackPosition [] = Unknown"
    by (simp add: detect_short)
  have s: "detectJumpingJackPosition downPose
             = currentState (processFrame createJumpingJackDetector 1000 downPose)"
    by (simp add: processFrame_def detect_downPose createJumpingJackDetector_def
        STATE_CHANGE_DEBOUNCE_MS_def)
  show ?thesis
    using u s
      ignored_frame_unchanged [of "[]" createJumpingJackDetector 1000, OF disjI1, OF u]
      ignored_frame_unchanged [of downPose "processFrame createJumpingJackDetector 1000 downPose"
        2000, OF disjI2, OF s]
    by simp
qed

text \<open>
  C7. A pose array with fewer than 33 entries, the empty one included, is classified
  \<open>Unknown\<close>; the detector absorbs it without any change, and the session's frame
  callback raises no event and keeps its state.
\<close>

theorem short_pose_unknown:
  "length pose < 33 \<Longrightarrow>
   detectJumpingJackPosition pose = Unknown \<and>
   processFrame d now pose = d \<and>
   webcamProcessFrame targetReps s now (Some pose) = (None, s)"
  by (simp add: detect_short processFrame_def webcamProcessFrame_def)

theorem short_pose_unknown_witness:
  "length ([] :: Landmark list) < 33 \<and>
   detectJumpingJackPosition [] = Unknown \<and>
   processFrame createJumpingJackDetector 1000 [] = createJumpingJackDetector \<and>
   webcamProcessFrame TARGET_REPS initialSession 1000 (Some []) = (None, initialSession)"
proof -
  have h: "length ([] :: Landmark list) < 33" by simp
  show ?thesis
    using h short_pose_unknown [OF h, of createJumpingJackDetector 1000 TARGET_REPS initialSession]
    by simp
qed

text \<open>
  C8. Processing a frame never lowers the rep count and raises it by at most one;
  \<open>reset\<close> is the operation that puts it back to zero.
\<close>

theorem reps_monotone:
  "getReps d \<le> getReps (processFrame d now pose) \<and>
   getReps (processFrame d now pose) \<le> getReps d + 1 \<and>
   getReps (reset d) = 0"
  by (simp add: processFrame_def getReps_def reset_def Let_def)

text \<open>
  Each rep uses up one \<open>Up\<close> frame: a step raises the count plus the pending flag by at
  most one, and only on a frame classified \<open>Up\<close>.
\<close>

lemma processFrame_up_budget:
  "reps (processFrame d now pose) + (if hasReachedUp (processFrame d now pose) then 1 else 0)
     \<le> reps d + (if hasReachedUp d then 1 else 0)
         + (if detectJumpingJackPosition pose = Up then 1 else 0)"
  by (simp add: processFrame_def Let_def)

lemma processFrames_up_budget:
  "reps (processFrames d frames) + (if hasReachedUp (processFrames d frames) then 1 else 0)
     \<le> reps d + (if hasReachedUp d then 1 else 0)
         + length (filter (\<lambda>f. detectJumpingJackPosition (snd f) = Up) frames)"
proof (induction frames arbitrary: d)
  case Nil
  then show ?case by simp
next
  case (Cons f frames)
  obtain now pose where f: "f = (now, pose)" by (cases f)
  have "reps (processFrames (processFrame d now pose) frames)
          + (if hasReachedUp (processFrames (processFrame d now pose) frames) then 1 else 0)
        \<le> reps (processFrame d now pose)
          + (if hasReachedUp (processFrame d now pose) then 1 else 0)
          + length (filter (\<lambda>f. detectJumpingJackPosition (snd f) = Up) frames)"
    by (rule Cons.IH)
  also have "\<dots> \<le> reps d + (if hasReachedUp d then 1 else 0)
          + (if detectJumpingJackPosition pose = Up then 1 else 0)
          + length (filter (\<lambda>f. detectJumpingJackPosition (snd f) = Up) frames)"
    using processFrame_up_budget [of d now pose] by simp
  finally show ?case
    by (simp add: f split: if_splits)
qed

text \<open>
  C1. From a fresh detector, frames classified \<open>Down\<close>, \<open>Up\<close>, \<open>Down\<close>, each at least the
  debounce interval after the one before (the clock not negative), give one rep; three
  \<open>Down\<close> frames give none, whatever their times; \<open>Down\<close>, \<open>Up\<close>, \<open>Up\<close>, \<open>Down\<close> give
  one rep, the second \<open>Up\<close> being a same-state frame; \<open>Down\<close>, \<open>Transition\<close>, \<open>Down\<close> give
  none. In any detector state the count goes up, by one, exactly when the frame is
  classified \<open>Down\<close>, the detector is not in \<open>Down\<close>, the debounce interval has passed
  and the reached-up flag is set; that transition clears the flag. The flag, unset in a
  fresh detector, changes only on an accepted change of state: into \<open>Up\<close> sets it, into
  \<open>Down\<close> leaves it unset, into \<open>Transition\<close> keeps it. So a run from a fresh detector
  never counts more reps than it has frames classified \<open>Up\<close>.
\<close>

theorem rep_counting:
  "(detectJumpingJackPosition p1 = Down \<and> detectJumpingJackPosition p2 = Up \<and>
    detectJumpingJackPosition p3 = Down \<and>
    0 \<le> t1 \<and> t1 + STATE_CHANGE_DEBOUNCE_MS \<le> t2 \<and> t2 + STATE_CHANGE_DEBOUNCE_MS \<le> t3 \<longrightarrow>
      getReps (processFrames createJumpingJackDetector [(t1, p1), (t2, p2), (t3, p3)]) = 1) \<and>
   (detectJumpingJackPosition q1 = Down \<and> detectJumpingJackPosition q2 = Down \<and>
    detectJumpingJackPosition q3 = Down \<longrightarrow>
      getReps (processFrames createJumpingJackDetector [(u1, q1), (u2, q2), (u3, q3)]) = 0) \<and>
   (detectJumpingJackPosition r1 = Down \<and> detectJumpingJackPosition r2 = Up \<and>
    detectJumpingJackPosition r3 = Up \<and> detectJumpingJackPosition r4 = Down \<and>
    0 \<le> v1 \<and> v1 + STATE_CHANGE_DEBOUNCE_MS \<le> v2 \<and> v2 + STATE_CHANGE_DEBOUNCE_MS \<le> v4 \<longrightarrow>
      getReps (processFrames createJumpingJackDetector
                 [(v1, r1), (v2, r2), (v3, r3), (v4, r4)]) = 1) \<and>
   (detectJumpingJackPosition s1 = Down \<and> detectJumpingJackPosition s2 = Transition \<and>
    detectJumpingJackPosition s3 = Down \<longrightarrow>
      getReps (processFrames createJumpingJackDetector [(w1, s1), (w2, s2), (w3, s3)]) = 0) \<and>
   getReps (processFrame d now pose) =
     (if detectJumpingJackPosition pose = Down \<and> currentState d \<noteq> Down \<and>
         STATE_CHANGE_DEBOUNCE_MS \<le> now - lastStateChangeTime d \<and> hasReachedUp d
      then getReps d + 1 else getReps d) \<and>
   (detectJumpingJackPosition pose = Down \<and> currentState d \<noteq> Down \<and>
    STATE_CHANGE_DEBOUNCE_MS \<le> now - lastStateChangeTime d \<and> hasReachedUp d \<longrightarrow>
      \<not> hasReachedUp (processFrame d now pose)) \<and>
   hasReachedUp (processFrame d now pose) =
     (if detectJumpingJackPosition pose \<noteq> Unknown \<and>
         detectJumpingJackPosition pose \<noteq> currentState d \<and>
         STATE_CHANGE_DEBOUNCE_MS \<le> now - lastStateChangeTime d
      then (if detectJumpingJackPosition pose = Up then True
            else if detectJumpingJackPosition pose = Down then False
            else hasReachedUp d)
      else hasReachedUp d) \<and>
   \<not> hasReachedUp createJumpingJackDetector \<and>
   getReps (processFrames createJumpingJackDetector frames)
     \<le> length (filter (\<lambda>f. detectJumpingJackPosition (snd f) = Up) frames)"
proof (intro conjI impI)
  show "getReps (processFrames createJumpingJackDetector [(t1, p1), (t2, p2), (t3, p3)]) = 1"
    if "detectJumpingJackPosition p1 = Down \<and> detectJumpingJackPosition p2 = Up \<and>
        detectJumpingJackPosition p3 = Down \<and>
        0 \<le> t1 \<and> t1 + STATE_CHANGE_DEBOUNCE_MS \<le> t2 \<and> t2 + STATE_CHANGE_DEBOUNCE_MS \<le> t3"
    using that
    by (simp add: processFrame_def createJumpingJackDetector_def getReps_def
        STATE_CHANGE_DEBOUNCE_MS_def)
  show "getReps (processFrames createJumpingJackDetector [(u1, q1), (u2, q2), (u3, q3)]) = 0"
    if "detectJumpingJackPosition q1 = Down \<and> detectJumpingJackPosition q2 = Down \<and>
        detectJumpingJackPosition q3 = Down"
    using that
    by (simp add: processFrame_def createJumpingJackDetector_def getReps_def)
  show "getReps (processFrames createJumpingJackDetector
                 [(v1, r1), (v2, r2), (v3, r3), (v4, r4)]) = 1"
    if "detectJumpingJackPosition r1 = Down \<and> detectJumpingJackPosition r2 = Up \<and>
    detectJumpingJackPosition r3 = Up \<and> detectJumpingJackPosition r4 = Down \<and>
    0 \<le> v1 \<and> v1 + STATE_CHANGE_DEBOUNCE_MS \<le> v2 \<and> v2 + STATE_CHANGE_DEBOUNCE_MS \<le> v4"
    using that
    by (simp add: processFrame_def createJumpingJackDetector_def getReps_def
        STATE_CHANGE_DEBOUNCE_MS_def)
  show "getReps (processFrames createJumpingJackDetector [(w1, s1), (w2, s2), (w3, s3)]) = 0"
    if "detectJumpingJackPosition s1 = Down \<and> detectJumpingJackPosition s2 = Transition \<and>
        detectJumpingJackPosition s3 = Down"
    using that
    by (simp add: processFrame_def createJumpingJackDetector_def getReps_def)
  show "getReps (processFrame d now pose) =
     (if detectJumpingJackPosition pose = Down \<and> currentState d \<noteq> Down \<and>
         STATE_CHANGE_DEBOUNCE_MS \<le> now - lastStateChangeTime d \<and> hasReachedUp d
      then getReps d + 1 else getReps d)"
    by (auto simp: processFrame_def getReps_def Let_def)
  show "\<not> hasReachedUp (processFrame d now pose)"
    if "detectJumpingJackPosition pose = Down \<and> currentState d \<noteq> Down \<and>
    STATE_CHANGE_DEBOUNCE_MS \<le> now - lastStateChangeTime d \<and> hasReachedUp d"
    using that by (auto simp: processFrame_def Let_def)
  show "hasReachedUp (processFrame d now pose) =
     (if detectJumpingJackPosition pose \<noteq> Unknown \<and>
         detectJumpingJackPosition pose \<noteq> currentState d \<and>
         STATE_CHANGE_DEBOUNCE_MS \<le> now - lastStateChangeTime d
      then (if detectJumpingJackPosition pose = Up then True
            else if detectJumpingJackPosition pose = Down then False
            else hasReachedUp d)
      else hasReachedUp d)"
    by (auto simp: processFrame_def Let_def)
  show "\<not> hasReachedUp createJumpingJackDetector"
    by (simp add: createJumpingJackDetector_def)
  show "getReps (processFrames createJumpingJackDetector frames)
     \<le> length (filter (\<lambda>f. detectJumpingJackPosition (snd f) = Up) frames)"
    using processFrames_up_budget [of createJumpingJackDetector frames]
    by (simp add: createJumpingJackDetector_def getReps_def split: if_splits)
qed

theorem rep_counting_witness:
  "getReps (processFrames createJumpingJackDetector
              [(500, downPose), (1000, upPose), (1500, downPose)]) = 1 \<and>
   getReps (processFrames createJumpingJackDetector
              [(500, downPose), (1000, downPose), (1500, downPose)]) = 0 \<and>
   getReps (processFrames createJumpingJackDetector
              [(500, downPose), (1000, upPose), (1100, upPose), (1500, downPose)]) = 1 \<and>
   getReps (processFrames createJumpingJackDetector
              [(500, downPose), (1000, feetApartArmsDownPose), (1500, downPose)]) = 0 \<and>
   hasReachedUp (processFrames createJumpingJackDetector [(500, downPose), (1000, upPose)]) \<and>
   getReps (processFrame
              (processFrames createJumpingJackDetector [(500, downPose), (1000, upPose)])
              1500 downPose)
     = getReps (processFrames createJumpingJackDetector [(500, downPose), (1000, upPose)]) + 1 \<and>
   \<not> hasReachedUp (processFrame
              (processFrames createJumpingJackDetector [(500, downPose), (1000, upPose)])
              1500 downPose)"
proof -
  note T = rep_counting [where ?p1.0 = downPose and ?p2.0 = upPose and ?p3.0 = downPose
        and ?t1.0 = 500 and ?t2.0 = 1000 and ?t3.0 = 1500
        and ?q1.0 = downPose and ?q2.0 = downPose and ?q3.0 = downPose
        and ?u1.0 = 500 and ?u2.0 = 1000 and ?u3.0 = 1500
        and ?r1.0 = downPose and ?r2.0 = upPose and ?r3.0 = upPose and ?r4.0 = downPose
        and ?v1.0 = 500 and ?v2.0 = 1000 and ?v3.0 = 1100 and ?v4.0 = 1500
        and ?s1.0 = downPose and ?s2.0 = feetApartArmsDownPose and ?s3.0 = downPose
        and ?w1.0 = 500 and ?w2.0 = 1000 and ?w3.0 = 1500
        and d = "processFrames createJumpingJackDetector [(500, downPose), (1000, upPose)]"
        and now = 1500 and pose = downPose and frames = "[]"]
  have d: "processFrames createJumpingJackDetector [(500, downPose), (1000, upPose)] =
             \<lparr>reps = 0, currentState = Up, hasReachedUp = True, lastStateChangeTime = 1000\<rparr>"
    by (simp add: processFrame_def detect_downPose detect_upPose createJumpingJackDetector_def
        STATE_CHANGE_DEBOUNCE_MS_def)
  have h1: "detectJumpingJackPosition downPose = Down \<and> detectJumpingJackPosition upPose = Up \<and>
        detectJumpingJackPosition downPose = Down \<and>
        (0::int) \<le> 500 \<and> 500 + STATE_CHANGE_DEBOUNCE_MS \<le> 1000 \<and>
        1000 + STATE_CHANGE_DEBOUNCE_MS \<le> 1500"
    by (simp add: detect_downPose detect_upPose STATE_CHANGE_DEBOUNCE_MS_def)
  have h2: "detectJumpingJackPosition downPose = Down \<and>
        detectJumpingJackPosition downPose = Down \<and> detectJumpingJackPosition downPose = Down"
    by (simp add: detect_downPose)
  have h3: "detectJumpingJackPosition downPose = Down \<and> detectJumpingJackPosition upPose = Up \<and>
        detectJumpingJackPosition upPose = Up \<and> detectJumpingJackPosition downPose = Down \<and>
        (0::int) \<le> 500 \<and> 500 + STATE_CHANGE_DEBOUNCE_MS \<le> 1000 \<and>
        1000 + STATE_CHANGE_DEBOUNCE_MS \<le> 1500"
    by (simp add: detect_downPose detect_upPose STATE_CHANGE_DEBOUNCE_MS_def)
  have h4: "detectJumpingJackPosition downPose = Down \<and>
        detectJumpingJackPosition feetApartArmsDownPose = Transition \<and>
        detectJumpingJackPosition downPose = Down"
    by (simp add: detect_downPose detect_feetApartArmsDownPose)
  have h5: "detectJumpingJackPosition downPose = Down \<and>
        currentState (processFrames createJumpingJackDetector [(500, downPose), (1000, upPose)])
          \<noteq> Down \<and>
        STATE_CHANGE_DEBOUNCE_MS
          \<le> 1500 - lastStateChangeTime
                     (processFrames createJumpingJackDetector [(500, downPose), (1000, upPose)]) \<and>
        hasReachedUp (processFrames createJumpingJackDetector [(500, downPose), (1000, upPose)])"
    unfolding d by (simp add: detect_downPose STATE_CHANGE_DEBOUNCE_MS_def)
  from T h1 have c1: "getReps (processFrames createJumpingJackDetector
              [(500, downPose), (1000, upPose), (1500, downPose)]) = 1"
    by blast
  from T h2 have c2: "getReps (processFrames createJumpingJackDetector
              [(500, downPose), (1000, downPose), (1500, downPose)]) = 0"
    by blast
  from T h3 have c3: "getReps (processFrames createJumpingJackDetector
              [(500, downPose), (1000, upPose), (1100, upPose), (1500, downPose)]) = 1"
    by blast
  from T h4 have c4: "getReps (processFrames createJumpingJackDetector
              [(500, downPose), (1000, feetApartArmsDownPose), (1500, downPose)]) = 0"
    by blast
  from h5 have c5:
    "hasReachedUp (processFrames createJumpingJackDetector [(500, downPose), (1000, upPose)])"
    by blast
  from T h5 have c6: "getReps (processFrame
              (processFrames createJumpingJackDetector [(500, downPose), (1000, upPose)])
              1500 downPose)
     = getReps (processFrames createJumpingJackDetector [(500, downPose), (1000, upPose)]) + 1"
    by simp
  from T h5 have c7: "\<not> hasReachedUp (processFrame
              (processFrames createJumpingJackDetector [(500, downPose), (1000, upPose)])
              1500 downPose)"
    by blast
  show ?thesis
    by (intro conjI c1 c2 c3 c4 c5 c6 c7)
qed

text \<open>
  C2, at the boundary. A candidate that arrives exactly 500 ms after the last accepted
  change is accepted, although the elapsed time does not exceed the interval: after
  \<open>Down\<close> accepted at 1000, the \<open>Up\<close> pose at 1500 becomes the reported state.
\<close>

theorem debounce_boundary_counterexample:
  "detectJumpingJackPosition upPose \<noteq> Unknown \<and>
   detectJumpingJackPosition upPose
     \<noteq> currentState (processFrame createJumpingJackDetector 1000 downPose) \<and>
   \<not> (1500 - lastStateChangeTime (processFrame createJumpingJackDetector 1000 downPose)
        > STATE_CHANGE_DEBOUNCE_MS) \<and>
   currentState (processFrame (processFrame createJumpingJackDetector 1000 downPose) 1500 upPose)
     = Up \<and>
   lastStateChangeTime
     (processFrame (processFrame createJumpingJackDetector 1000 downPose) 1500 upPose) = 1500"
  by (simp add: processFrame_def detect_downPose detect_upPose createJumpingJackDetector_def
      STATE_CHANGE_DEBOUNCE_MS_def)

text \<open>
  C2, as the code has it. The interval is 500 ms. A frame changes the detector only if
  at least the interval has elapsed since the last accepted change; a frame that
  arrives earlier leaves the detector as it was (reported state, rep count, flag and
  timestamp); a changed, known state that arrives when at least the interval has
  elapsed becomes the reported state and restarts the interval. So of two frames less
  than the interval apart, if the first is accepted the second is dropped.
\<close>

theorem debounce:
  "STATE_CHANGE_DEBOUNCE_MS = 500 \<and>
   (processFrame d now pose \<noteq> d \<longrightarrow> STATE_CHANGE_DEBOUNCE_MS \<le> now - lastStateChangeTime d) \<and>
   (now - lastStateChangeTime d < STATE_CHANGE_DEBOUNCE_MS \<longrightarrow> processFrame d now pose = d) \<and>
   (detectJumpingJackPosition pose \<noteq> Unknown \<and>
    detectJumpingJackPosition pose \<noteq> currentState d \<and>
    STATE_CHANGE_DEBOUNCE_MS \<le> now - lastStateChangeTime d \<longrightarrow>
      getState (processFrame d now pose) = detectJumpingJackPosition pose \<and>
      lastStateChangeTime (processFrame d now pose) = now) \<and>
   (processFrame d t1 p1 \<noteq> d \<and> t2 - t1 < STATE_CHANGE_DEBOUNCE_MS \<longrightarrow>
      processFrame (processFrame d t1 p1) t2 p2 = processFrame d t1 p1)"
proof (intro conjI impI)
  show "STATE_CHANGE_DEBOUNCE_MS = 500"
    by (simp add: STATE_CHANGE_DEBOUNCE_MS_def)
  show "STATE_CHANGE_DEBOUNCE_MS \<le> now - lastStateChangeTime d" if "processFrame d now pose \<noteq> d"
    using that by (auto simp: processFrame_def Let_def split: if_splits)
  show dropped: "processFrame d' now' pose' = d'"
    if "now' - lastStateChangeTime d' < STATE_CHANGE_DEBOUNCE_MS" for d' now' pose'
    using that by (simp add: processFrame_def Let_def)
  assume acc: "detectJumpingJackPosition pose \<noteq> Unknown \<and>
    detectJumpingJackPosition pose \<noteq> currentState d \<and>
    STATE_CHANGE_DEBOUNCE_MS \<le> now - lastStateChangeTime d"
  show "getState (processFrame d now pose) = detectJumpingJackPosition pose"
    using acc by (simp add: processFrame_def Let_def getState_def)
  show "lastStateChangeTime (processFrame d now pose) = now"
    using acc by (simp add: processFrame_def Let_def)
next
  show "processFrame (processFrame d t1 p1) t2 p2 = processFrame d t1 p1"
    if h: "processFrame d t1 p1 \<noteq> d \<and> t2 - t1 < STATE_CHANGE_DEBOUNCE_MS"
  proof -
    have "now' - lastStateChangeTime d' < STATE_CHANGE_DEBOUNCE_MS \<Longrightarrow>
          processFrame d' now' pose' = d'" for d' now' pose'
      by (simp add: processFrame_def Let_def)
    moreover have "lastStateChangeTime (processFrame d t1 p1) = t1"
      using h by (auto simp: processFrame_def Let_def split: if_splits)
    ultimately show ?thesis
      using h by simp
  qed
qed

theorem debounce_witness:
  "processFrame createJumpingJackDetector 1000 downPose \<noteq> createJumpingJackDetector \<and>
   STATE_CHANGE_DEBOUNCE_MS \<le> 1000 - lastStateChangeTime createJumpingJackDetector \<and>
   getState (processFrame createJumpingJackDetector 1000 downPose) = Down \<and>
   lastStateChangeTime (processFrame createJumpingJackDetector 1000 downPose) = 1000 \<and>
   (1200::int) - 1000 < STATE_CHANGE_DEBOUNCE_MS \<and>
   processFrame (processFrame createJumpingJackDetector 1000 downPose) 1200 upPose
     = processFrame createJumpingJackDetector 1000 downPose \<and>
   getState (processFrame (processFrame createJumpingJackDetector 1000 downPose) 1200 upPose)
     = Down"
proof -
  note T = debounce [of createJumpingJackDetector 1000 downPose 1000 downPose 1200 upPose]
  note U = debounce [of "processFrame createJumpingJackDetector 1000 downPose" 1200 upPose]
  have a: "processFrame createJumpingJackDetector 1000 downPose \<noteq> createJumpingJackDetector"
    by (simp add: processFrame_def detect_downPose createJumpingJackDetector_def
        STATE_CHANGE_DEBOUNCE_MS_def)
  have b: "(1200::int) - 1000 < STATE_CHANGE_DEBOUNCE_MS"
    by (simp add: STATE_CHANGE_DEBOUNCE_MS_def)
  have u: "detectJumpingJackPosition downPose \<noteq> Unknown \<and>
           detectJumpingJackPosition downPose \<noteq> currentState createJumpingJackDetector"
    by (simp add: detect_downPose createJumpingJackDetector_def)
  from T a have c1:
    "STATE_CHANGE_DEBOUNCE_MS \<le> 1000 - lastStateChangeTime createJumpingJackDetector"
    by blast
  from T u c1 have s: "getState (processFrame createJumpingJackDetector 1000 downPose) = Down"
    by (simp add: detect_downPose)
  from T u c1 have t:
    "lastStateChangeTime (processFrame createJumpingJackDetector 1000 downPose) = 1000"
    by blast
  from U b have c2:
    "processFrame (processFrame createJumpingJackDetector 1000 downPose) 1200 upPose
       = processFrame createJumpingJackDetector 1000 downPose"
    unfolding t by blast
  from T a b have c2':
    "processFrame (processFrame createJumpingJackDetector 1000 downPose) 1200 upPose
       = processFrame createJumpingJackDetector 1000 downPose"
    by blast
  have c3:
    "getState (processFrame (processFrame createJumpingJackDetector 1000 downPose) 1200 upPose)
       = Down"
    unfolding c2' by (rule s)
  show ?thesis
    by (intro conjI a c1 s t b c2 c3)
qed

section \<open>The session\<close>


















section \<open>The ledger\<close>

lemma applyCall_inv:
  "0 \<le> earned l \<and> 0 \<le> spent l \<and> spent l \<le> earned l \<Longrightarrow>
   0 \<le> earned (applyCall l c) \<and> 0 \<le> spent (applyCall l c) \<and>
   spent (applyCall l c) \<le> earned (applyCall l c)"
proof -
  obtain now call where c: "c = (now, call)" by (cases c)
  assume "0 \<le> earned l \<and> 0 \<le> spent l \<and> spent l \<le> earned l"
  then show ?thesis
    by (cases call) (auto simp: c credit_def spend_def available_def Let_def)
qed

lemma applyCalls_inv:
  "0 \<le> earned l \<and> 0 \<le> spent l \<and> spent l \<le> earned l \<Longrightarrow>
   0 \<le> earned (applyCalls l cs) \<and> 0 \<le> spent (applyCalls l cs) \<and>
   spent (applyCalls l cs) \<le> earned (applyCalls l cs)"
proof (induction cs arbitrary: l)
  case Nil
  then show ?case by simp
next
  case (Cons c cs)
  from Cons.IH [OF applyCall_inv [OF Cons.prems]] show ?case by simp
qed

text \<open>
  C4. After every prefix of every sequence of credit and spend calls on the initial
  ledger, both counters are non-negative and the available balance, earned minus spent,
  is non-negative; a spend of more than the available balance fails with
  \<open>InsufficientBalance\<close> and leaves both counters as they were.
\<close>

theorem ledger_invariant:
  "let l = applyCalls initialLedger (take n calls)
   in 0 \<le> earned l \<and> 0 \<le> spent l \<and>
      available l = earned l - spent l \<and> 0 \<le> available l \<and>
      (available l < amount \<longrightarrow>
         fst (spend l now amount) = Inl (InsufficientBalance (available l)) \<and>
         earned (snd (spend l now amount)) = earned l \<and>
         spent (snd (spend l now amount)) = spent l)"
proof -
  define l where "l = applyCalls initialLedger (take n calls)"
  have inv: "0 \<le> earned l \<and> 0 \<le> spent l \<and> spent l \<le> earned l"
    unfolding l_def by (rule applyCalls_inv) (simp add: initialLedger_def)
  then have "available l < amount \<longrightarrow>
         fst (spend l now amount) = Inl (InsufficientBalance (available l)) \<and>
         earned (snd (spend l now amount)) = earned l \<and>
         spent (snd (spend l now amount)) = spent l"
    by (simp add: spend_def available_def)
  with inv show ?thesis
    by (simp add: Let_def l_def [symmetric] available_def)
qed

theorem ledger_invariant_witness:
  "available (applyCalls initialLedger (take 2 [(1, CreditCall 1), (2, SpendCall 1)])) = 0 \<and>
   (0::int) < 1 \<and>
   fst (spend (applyCalls initialLedger (take 2 [(1, CreditCall 1), (2, SpendCall 1)])) 3 1)
     = Inl (InsufficientBalance 0) \<and>
   earned (snd (spend (applyCalls initialLedger
                         (take 2 [(1, CreditCall 1), (2, SpendCall 1)])) 3 1)) = 1 \<and>
   spent (snd (spend (applyCalls initialLedger
                        (take 2 [(1, CreditCall 1), (2, SpendCall 1)])) 3 1)) = 1"
proof -
  have a: "available (applyCalls initialLedger (take 2 [(1, CreditCall 1), (2, SpendCall 1)])) = 0"
    by (simp add: initialLedger_def credit_def spend_def available_def)
  show ?thesis
    using a ledger_invariant [of 2 "[(1, CreditCall 1), (2, SpendCall 1)]" 1 3]
    by (simp add: Let_def initialLedger_def credit_def spend_def available_def)
qed

end
